theory Spec2Isabelle
  imports Main "HOL-Library.Word"
begin

unbundle bit_operations_syntax

section \<open>The controller's data\<close>

text \<open>
  The sketch \<^verbatim>\<open>ESP8266_Neopixel_Controller.ino\<close> keeps everything in global variables.
  \<^verbatim>\<open>uint8_t\<close> is \<open>8 word\<close>, \<^verbatim>\<open>uint32_t\<close> is \<open>32 word\<close>; a C string is the list
  of its characters before the terminating NUL.
\<close>

type_synonym uint8_t = "8 word"
type_synonym int16_t = "16 word"
type_synonym uint32_t = "32 word"

text \<open>\<^verbatim>\<open>#define COLOR_COUNT 10\<close>: the maximum number of saved colors.\<close>

definition COLOR_COUNT :: nat where
  "COLOR_COUNT = 10"

text \<open>\<^verbatim>\<open>enum TProgram_States {NEOPIXEL_OFF, NEOPIXEL_COLOR, NEOPIXEL_EFFECT}\<close>\<close>

datatype TProgram_States = NEOPIXEL_OFF | NEOPIXEL_COLOR | NEOPIXEL_EFFECT

text \<open>
  \<^verbatim>\<open>colorType\<close>: the array \<^verbatim>\<open>uint8_t rgb[3]\<close> is the triple of its three elements,
  \<^verbatim>\<open>brtns\<close> the brightness.
\<close>

record colorType =
  rgb :: "uint8_t \<times> uint8_t \<times> uint8_t"
  brtns :: uint8_t

record npControllerSettingType =
  colorCount :: uint8_t
  programState :: TProgram_States
  activeColor :: uint8_t
  activeEffect :: uint8_t

text \<open>
  \<^verbatim>\<open>npControllerEEPROMType\<close>, the structure written to the EEPROM. \<open>colors\<close> has
  \<open>COLOR_COUNT + 1\<close> elements; index \<open>COLOR_COUNT\<close> holds a requested color that is
  not saved.
\<close>

record npControllerEEPROMType =
  crc32 :: uint32_t
  npControllerSetting :: npControllerSettingType
  colors :: "colorType list"

datatype effectFunctionType =
  rainbow | rainbowWithGlitter | confetti | sinelon | bpm | juggle
  | fire2012 | cylon | sparkle | snowsparkle | meteor | theatre

datatype ledCall =
  ShowColor "uint8_t \<times> uint8_t \<times> uint8_t" uint8_t
  | SetBrightness uint8_t
  | EffectFrame effectFunctionType int16_t
  | Clear

text \<open>
  The global variables. \<open>eeprom\<close> is the data buffer of the \<^verbatim>\<open>EEPROM\<close> object (what
  \<^verbatim>\<open>EEPROM.put\<close> writes and \<^verbatim>\<open>EEPROM.get\<close> reads), \<open>flash\<close> what a successful
  \<^verbatim>\<open>EEPROM.commit()\<close> has made permanent, and \<open>shown\<close> the calls made to the LED
  driver, latest first.
\<close>

record controller =
  npControllerEEPROM :: npControllerEEPROMType
  actualFrame :: int16_t
  lastNeopixelRefresh :: uint32_t
  changeNeopixel :: uint8_t
  eeprom :: npControllerEEPROMType
  flash :: npControllerEEPROMType
  shown :: "ledCall list"

text \<open>
  The sketch's pointers \<^verbatim>\<open>npControllerSetting\<close> and \<^verbatim>\<open>colors\<close> point into the global
  \<^verbatim>\<open>npControllerEEPROM\<close>: \<open>settingOf\<close> and \<open>colorsOf\<close> read through them, and each
  of the following functions is one assignment through them.
\<close>

abbreviation settingOf :: "controller \<Rightarrow> npControllerSettingType" where
  "settingOf s \<equiv> npControllerSetting (npControllerEEPROM s)"

abbreviation colorsOf :: "controller \<Rightarrow> colorType list" where
  "colorsOf s \<equiv> colors (npControllerEEPROM s)"

named_theorems assign

definition setSetting :: "npControllerSettingType \<Rightarrow> controller \<Rightarrow> controller" where
  [assign]: "setSetting st s = s\<lparr>npControllerEEPROM := (npControllerEEPROM s)\<lparr>npControllerSetting := st\<rparr>\<rparr>"

definition setColorCount :: "uint8_t \<Rightarrow> controller \<Rightarrow> controller" where
  [assign]: "setColorCount n s = setSetting ((settingOf s)\<lparr>colorCount := n\<rparr>) s"

definition setState :: "TProgram_States \<Rightarrow> controller \<Rightarrow> controller" where
  [assign]: "setState p s = setSetting ((settingOf s)\<lparr>programState := p\<rparr>) s"

definition setActiveColor :: "uint8_t \<Rightarrow> controller \<Rightarrow> controller" where
  [assign]: "setActiveColor a s = setSetting ((settingOf s)\<lparr>activeColor := a\<rparr>) s"

definition setActiveEffect :: "uint8_t \<Rightarrow> controller \<Rightarrow> controller" where
  [assign]: "setActiveEffect e s = setSetting ((settingOf s)\<lparr>activeEffect := e\<rparr>) s"

definition setColors :: "colorType list \<Rightarrow> controller \<Rightarrow> controller" where
  [assign]: "setColors cs s = s\<lparr>npControllerEEPROM := (npControllerEEPROM s)\<lparr>colors := cs\<rparr>\<rparr>"

text \<open>
  \<open>setColor k brightness rgb'\<close> is the four assignments
  \<^verbatim>\<open>colors[k].brtns = brightness; colors[k].rgb[0..2] = rgb[0..2]\<close>.
\<close>

definition setColor :: "nat \<Rightarrow> uint8_t \<Rightarrow> uint8_t \<times> uint8_t \<times> uint8_t \<Rightarrow> controller \<Rightarrow> controller" where
  [assign]: "setColor k brightness rgb' s =
     setColors ((colorsOf s)[k := (colorsOf s ! k)\<lparr>brtns := brightness, rgb := rgb'\<rparr>]) s"

text \<open>
  The shape every operation relies on: the array has its \<open>COLOR_COUNT + 1\<close> elements
  and \<open>colorCount\<close> does not exceed \<open>COLOR_COUNT\<close>. Outside it the C code reads or
  writes past the array, which the model does not describe.
\<close>

definition wellFormed :: "controller \<Rightarrow> bool" where
  "wellFormed s \<longleftrightarrow>
     length (colorsOf s) = COLOR_COUNT + 1 \<and> unat (colorCount (settingOf s)) \<le> COLOR_COUNT"

section \<open>Color helpers\<close>

text \<open>\<^verbatim>\<open>isxdigit\<close> of the C library, on the character's code.\<close>

definition isxdigit :: "char \<Rightarrow> bool" where
  "isxdigit c =
     (let n = (of_char c :: nat)
      in (48 \<le> n \<and> n \<le> 57) \<or> (65 \<le> n \<and> n \<le> 70) \<or> (97 \<le> n \<and> n \<le> 102))"

text \<open>The value \<^verbatim>\<open>sscanf\<close>'s \<^verbatim>\<open>%x\<close> gives a hexadecimal digit.\<close>

definition hexDigit :: "char \<Rightarrow> uint32_t" where
  "hexDigit c =
     (let n = (of_char c :: nat)
      in if n \<le> 57 then of_nat (n - 48)
         else if n \<le> 70 then of_nat (n - 55)
         else of_nat (n - 87))"

text \<open>
  \<^verbatim>\<open>sscanf(rgbHex, "%x", &rgb32)\<close>: the number written by the leading hexadecimal
  digits, in 32 bits. Every caller has checked before that the string is six
  hexadecimal digits, so the other forms \<^verbatim>\<open>%x\<close> accepts (white space, sign,
  \<^verbatim>\<open>0x\<close>) and a failed conversion do not occur.
\<close>

definition sscanf_x :: "string \<Rightarrow> uint32_t" where
  "sscanf_x str = foldl (\<lambda>acc c. acc * 16 + hexDigit c) 0 (takeWhile isxdigit str)"

definition parseHexColor :: "string \<Rightarrow> uint8_t \<times> uint8_t \<times> uint8_t" where
  "parseHexColor rgbHex =
     (let rgb32 = sscanf_x rgbHex
      in (ucast (drop_bit 16 (rgb32 AND 0x00ff0000)),
          ucast (drop_bit 8 (rgb32 AND 0x0000ff00)),
          ucast (rgb32 AND 0x000000ff)))"

text \<open>\<^verbatim>\<open>checkValidColor\<close>: 1 if the color and brightness are valid, else 0.\<close>

definition checkValidColor :: "string \<Rightarrow> uint8_t \<Rightarrow> uint8_t" where
  "checkValidColor rgbHex brightness =
     (if length rgbHex \<noteq> 6 then 0
      else if \<not> list_all isxdigit (take 6 rgbHex) then 0
      else if parseHexColor rgbHex = (0, 0, 0) then 0
      else if brightness > 100 then 0
      else 1)"

text \<open>\<^verbatim>\<open>resetColor\<close> zeroes one entry.\<close>

definition resetColor :: "colorType \<Rightarrow> colorType" where
  "resetColor color = color\<lparr>rgb := (0, 0, 0), brtns := 0\<rparr>"

text \<open>
  \<^verbatim>\<open>findColor\<close>: the first index below \<open>colorCount\<close> whose entry has this brightness and
  these three bytes, \<open>COLOR_COUNT\<close> when there is none.
\<close>

definition findColor :: "uint8_t \<times> uint8_t \<times> uint8_t \<Rightarrow> uint8_t \<Rightarrow> controller \<Rightarrow> uint8_t" where
  "findColor rgb' brightness s =
     (case find (\<lambda>i. brtns (colorsOf s ! i) = brightness \<and> rgb (colorsOf s ! i) = rgb')
             [0 ..< unat (colorCount (settingOf s))] of
        Some i \<Rightarrow> of_nat i
      | None \<Rightarrow> of_nat COLOR_COUNT)"

section \<open>The EEPROM\<close>

text \<open>
  \<^verbatim>\<open>calculateCRC32\<close>. \<open>crcStep\<close> is the body of the inner loop for one mask \<open>i\<close>,
  \<open>crcBits\<close> the inner loop \<^verbatim>\<open>for (uint32_t i = 0x80; i > 0; i >>= 1)\<close>, \<open>crcLoop\<close> the
  outer \<^verbatim>\<open>while (length--)\<close> over the bytes.
\<close>

definition crcStep :: "uint32_t \<Rightarrow> uint8_t \<Rightarrow> uint32_t \<Rightarrow> uint32_t" where
  "crcStep i c crc =
     (let bit0 = (crc AND 0x80000000 \<noteq> 0);
          bit1 = (if ucast c AND i \<noteq> 0 then \<not> bit0 else bit0);
          crc1 = push_bit 1 crc
      in if bit1 then crc1 XOR 0x04c11db7 else crc1)"

function crcBits :: "uint32_t \<Rightarrow> uint8_t \<Rightarrow> uint32_t \<Rightarrow> uint32_t" where
  "crcBits i c crc = (if i > 0 then crcBits (drop_bit 1 i) c (crcStep i c crc) else crc)"
  by pat_completeness auto
termination
proof (relation "measure (\<lambda>(i, c, crc). unat i)")
  show "wf (measure (\<lambda>(i, c, crc). unat i))" by simp
next
  fix i :: uint32_t and c :: uint8_t and crc :: uint32_t
  assume "0 < i"
  then have "unat i \<noteq> 0" by (simp add: unat_gt_0 word_neq_0_conv)
  moreover have "unat (drop_bit 1 i) = unat i div 2"
    by (simp add: drop_bit_eq_div unat_div)
  ultimately show "((drop_bit 1 i, c, crcStep i c crc), i, c, crc) \<in> measure (\<lambda>(i, c, crc). unat i)"
    by simp
qed

primrec crcLoop :: "uint32_t \<Rightarrow> uint8_t list \<Rightarrow> uint32_t" where
  "crcLoop crc [] = crc"
| "crcLoop crc (c # data) = crcLoop (crcBits 0x80 c crc) data"

definition calculateCRC32 :: "uint8_t list \<Rightarrow> uint32_t" where
  "calculateCRC32 data = crcLoop 0xffffffff data"

text \<open>
  The checksum runs over the bytes of \<^verbatim>\<open>npControllerEEPROM\<close> after its first four
  (\<^verbatim>\<open>((uint8_t*)&npControllerEEPROM) + 4\<close>, \<^verbatim>\<open>sizeof(npControllerEEPROM) - 4\<close>). Which
  bytes these are is fixed by the compiler, not by the sketch, so the operations take
  the layout as their first argument: the bytes of the settings and the colors.
\<close>

type_synonym layout = "npControllerSettingType \<Rightarrow> colorType list \<Rightarrow> uint8_t list"

text \<open>
  \<^verbatim>\<open>saveEEPROM\<close>: store the checksum, \<^verbatim>\<open>EEPROM.put\<close> the structure, \<^verbatim>\<open>EEPROM.commit()\<close>.
  Whether the commit succeeds is the library's answer, the argument \<open>commitOk\<close>;
  the function returns it as 1 or 0.
\<close>

definition saveEEPROM :: "layout \<Rightarrow> bool \<Rightarrow> controller \<Rightarrow> uint8_t \<times> controller" where
  "saveEEPROM bytesOf commitOk s =
     (let s1 = s\<lparr>npControllerEEPROM := (npControllerEEPROM s)
                  \<lparr>crc32 := calculateCRC32 (bytesOf (settingOf s) (colorsOf s))\<rparr>\<rparr>;
          s2 = s1\<lparr>eeprom := npControllerEEPROM s1\<rparr>
      in if commitOk then (1, s2\<lparr>flash := eeprom s2\<rparr>) else (0, s2))"

text \<open>\<^verbatim>\<open>resetEEPROM\<close>: the loop resets the entries at the indices below \<open>COLOR_COUNT\<close>.\<close>

definition resetEEPROM :: "layout \<Rightarrow> bool \<Rightarrow> controller \<Rightarrow> controller" where
  "resetEEPROM bytesOf commitOk s =
     (let cs = fold (\<lambda>i cs. cs[i := resetColor (cs ! i)]) [0 ..< COLOR_COUNT] (colorsOf s);
          s1 = setColors cs s;
          s2 = setColorCount 0 s1;
          s3 = setState NEOPIXEL_OFF s2;
          s4 = setActiveColor 0 s3;
          s5 = setActiveEffect 0 s4
      in snd (saveEEPROM bytesOf commitOk s5))"

text \<open>
  \<open>setupEEPROM\<close> is the part of \<^verbatim>\<open>setup()\<close> that loads the settings. \<open>percentUsed\<close> is
  what \<^verbatim>\<open>EEPROM.percentUsed()\<close> returns; \<^verbatim>\<open>EEPROM.get\<close> copies the buffer into the
  global structure.
\<close>

definition setupEEPROM :: "layout \<Rightarrow> int \<Rightarrow> bool \<Rightarrow> controller \<Rightarrow> controller" where
  "setupEEPROM bytesOf percentUsed commitOk s =
     (if percentUsed \<ge> 0 then
        (let s1 = s\<lparr>npControllerEEPROM := eeprom s\<rparr>;
             crc = calculateCRC32 (bytesOf (settingOf s1) (colorsOf s1))
         in if crc = crc32 (npControllerEEPROM s1) then s1
            else resetEEPROM bytesOf commitOk s1)
      else resetEEPROM bytesOf commitOk s)"

section \<open>Requests\<close>

text \<open>\<^verbatim>\<open>colorRequest\<close>: set the color of the Neopixels.\<close>

definition colorRequest :: "string \<Rightarrow> uint8_t \<Rightarrow> controller \<Rightarrow> uint8_t \<times> controller" where
  "colorRequest rgbHex brightness s =
     (let result = checkValidColor rgbHex brightness
      in if result \<noteq> 0 then
           (let s1 = (setState NEOPIXEL_COLOR s)\<lparr>changeNeopixel := 1\<rparr>;
                rgb' = parseHexColor rgbHex;
                colorIndex = findColor rgb' brightness s1;
                s2 = setColor (unat colorIndex) brightness rgb' s1
            in (result, setActiveColor colorIndex s2))
         else (result, s))"

definition offRequest :: "controller \<Rightarrow> uint8_t \<times> controller" where
  "offRequest s = (1, (setState NEOPIXEL_OFF s)\<lparr>changeNeopixel := 1\<rparr>)"

text \<open>
  \<^verbatim>\<open>saveRequest\<close>: 4 when there is no more space, 3 when the color is already saved,
  2 when the input is invalid, else what \<^verbatim>\<open>saveEEPROM\<close> returns.
\<close>

definition saveRequest :: "layout \<Rightarrow> bool \<Rightarrow> string \<Rightarrow> uint8_t \<Rightarrow> controller \<Rightarrow> uint8_t \<times> controller" where
  "saveRequest bytesOf commitOk rgbHex brightness s =
     (if colorCount (settingOf s) = of_nat COLOR_COUNT then (4, s)
      else if checkValidColor rgbHex brightness \<noteq> 0 then
        (let rgb' = parseHexColor rgbHex;
             colorIndex = findColor rgb' brightness s
         in if colorIndex < of_nat COLOR_COUNT then (3, s)
            else
              (let s1 = setColor (unat (colorCount (settingOf s))) brightness rgb' s;
                   s2 = setColorCount (colorCount (settingOf s1) + 1) s1
               in saveEEPROM bytesOf commitOk s2))
      else (2, s))"

text \<open>
  \<^verbatim>\<open>deleteRequest\<close>: 3 when the color is not saved, 2 when the input is invalid, else
  what \<^verbatim>\<open>saveEEPROM\<close> returns. \<open>shiftDown\<close> is its loop
  \<^verbatim>\<open>for (uint8_t i = colorIndex+1; i < colorCount; i++)\<close>, which copies entry \<open>i\<close> to
  \<open>i - 1\<close>.
\<close>

definition shiftDown :: "nat \<Rightarrow> nat \<Rightarrow> colorType list \<Rightarrow> colorType list" where
  "shiftDown colorIndex n cs =
     fold (\<lambda>i cs. cs[i - 1 := (cs ! (i - 1))\<lparr>brtns := brtns (cs ! i), rgb := rgb (cs ! i)\<rparr>])
       [colorIndex + 1 ..< n] cs"

definition deleteRequest :: "layout \<Rightarrow> bool \<Rightarrow> string \<Rightarrow> uint8_t \<Rightarrow> controller \<Rightarrow> uint8_t \<times> controller" where
  "deleteRequest bytesOf commitOk rgbHex brightness s =
     (if checkValidColor rgbHex brightness \<noteq> 0 then
        (let rgb' = parseHexColor rgbHex;
             colorIndex = findColor rgb' brightness s
         in if colorIndex = of_nat COLOR_COUNT then (3, s)
            else
              (let k = unat colorIndex;
                   s1 = setColors ((colorsOf s)[k := resetColor (colorsOf s ! k)]) s;
                   s2 = setColors (shiftDown k (unat (colorCount (settingOf s1))) (colorsOf s1)) s1;
                   s3 = (if activeColor (settingOf s2) = colorIndex then setActiveColor 0 s2
                         else if activeColor (settingOf s2) > colorIndex
                         then setActiveColor (activeColor (settingOf s2) - 1) s2
                         else s2);
                   s4 = setColorCount (colorCount (settingOf s3) - 1) s3
               in saveEEPROM bytesOf commitOk s4))
      else (2, s))"

section \<open>Effects\<close>

record effectType =
  effectName :: string
  effectFunction :: effectFunctionType
  effectFrames :: int16_t

text \<open>\<^verbatim>\<open>#define EFFECT_FRAMES_PER_SECOND 30\<close> and \<^verbatim>\<open>#define EFFECT_BRIGHTNESS 96\<close>\<close>

definition EFFECT_FRAMES_PER_SECOND :: int16_t where
  "EFFECT_FRAMES_PER_SECOND = 30"

definition EFFECT_BRIGHTNESS :: uint8_t where
  "EFFECT_BRIGHTNESS = 96"

definition effects :: "effectType list" where
  "effects =
    [\<lparr>effectName = ''rainbow'', effectFunction = rainbow, effectFrames = EFFECT_FRAMES_PER_SECOND * 5\<rparr>,
     \<lparr>effectName = ''rainbowGl'', effectFunction = rainbowWithGlitter, effectFrames = EFFECT_FRAMES_PER_SECOND * 5\<rparr>,
     \<lparr>effectName = ''confetti'', effectFunction = confetti, effectFrames = EFFECT_FRAMES_PER_SECOND * 5\<rparr>,
     \<lparr>effectName = ''sinelon'', effectFunction = sinelon, effectFrames = EFFECT_FRAMES_PER_SECOND * 5\<rparr>,
     \<lparr>effectName = ''bpm'', effectFunction = bpm, effectFrames = EFFECT_FRAMES_PER_SECOND * 5\<rparr>,
     \<lparr>effectName = ''juggle'', effectFunction = juggle, effectFrames = EFFECT_FRAMES_PER_SECOND\<rparr>,
     \<lparr>effectName = ''fire2012'', effectFunction = fire2012, effectFrames = EFFECT_FRAMES_PER_SECOND\<rparr>,
     \<lparr>effectName = ''cylon'', effectFunction = cylon, effectFrames = EFFECT_FRAMES_PER_SECOND * 4\<rparr>,
     \<lparr>effectName = ''sparkle'', effectFunction = sparkle, effectFrames = EFFECT_FRAMES_PER_SECOND\<rparr>,
     \<lparr>effectName = ''snowspark'', effectFunction = snowsparkle, effectFrames = EFFECT_FRAMES_PER_SECOND\<rparr>,
     \<lparr>effectName = ''meteor'', effectFunction = meteor, effectFrames = EFFECT_FRAMES_PER_SECOND * 2\<rparr>,
     \<lparr>effectName = ''theatre'', effectFunction = theatre, effectFrames = EFFECT_FRAMES_PER_SECOND div 2\<rparr>]"

text \<open>
  \<^verbatim>\<open>checkValidEffect\<close>: the index of the first effect with this name
  (\<^verbatim>\<open>strcmp(...) == 0\<close>), \<^verbatim>\<open>ARRAY_SIZE(effects)\<close> when there is none.
\<close>

definition checkValidEffect :: "string \<Rightarrow> uint8_t" where
  "checkValidEffect name =
     (case find (\<lambda>i. effectName (effects ! i) = name) [0 ..< length effects] of
        Some i \<Rightarrow> of_nat i
      | None \<Rightarrow> of_nat (length effects))"

definition effectRequest :: "string \<Rightarrow> controller \<Rightarrow> uint8_t \<times> controller" where
  "effectRequest name s =
     (let effectIndex = checkValidEffect name
      in if unat effectIndex < length effects then
           (1, setActiveEffect effectIndex ((setState NEOPIXEL_EFFECT s)\<lparr>changeNeopixel := 1\<rparr>))
         else (0, s))"

section \<open>Button clicks\<close>

definition BUTTON_SINGLE_CLICK :: uint8_t where "BUTTON_SINGLE_CLICK = 1"
definition BUTTON_DOUBLE_CLICK :: uint8_t where "BUTTON_DOUBLE_CLICK = 2"
definition BUTTON_LONG_CLICK :: uint8_t where "BUTTON_LONG_CLICK = 3"

text \<open>
  \<^verbatim>\<open>processClick\<close>. The comparisons with \<^verbatim>\<open>colorCount - 1\<close> and
  \<^verbatim>\<open>ARRAY_SIZE(effects) - 1\<close> are made on integers, as C promotes them.
\<close>

definition processClick :: "uint8_t \<Rightarrow> controller \<Rightarrow> controller" where
  "processClick clickType s =
     (let s0 = s\<lparr>changeNeopixel := 1\<rparr>;
          oldState = programState (settingOf s0)
      in if clickType = BUTTON_LONG_CLICK then setState NEOPIXEL_OFF s0
         else if clickType = BUTTON_SINGLE_CLICK then
           (if colorCount (settingOf s0) = 0 then s0
            else
              (let s1 = setState NEOPIXEL_COLOR s0
               in if activeColor (settingOf s1) = of_nat COLOR_COUNT
                  then setActiveColor 0 s1
                  else if oldState = NEOPIXEL_OFF \<or> oldState = NEOPIXEL_EFFECT then s1
                  else if uint (activeColor (settingOf s1))
                          = uint (colorCount (settingOf s1)) - 1
                  then setActiveColor 0 (setState NEOPIXEL_OFF s1)
                  else setActiveColor (activeColor (settingOf s1) + 1) s1))
         else if clickType = BUTTON_DOUBLE_CLICK then
           (let s1 = setState NEOPIXEL_EFFECT s0
            in if oldState = NEOPIXEL_OFF \<or> oldState = NEOPIXEL_COLOR then s1
               else if unat (activeEffect (settingOf s1)) = length effects - 1
               then setActiveEffect 0 (setState NEOPIXEL_OFF s1)
               else setActiveEffect (activeEffect (settingOf s1) + 1) s1)
         else s0)"

section \<open>The Neopixel part of the main loop\<close>

text \<open>
  The \<^verbatim>\<open>switch\<close> at the end of \<^verbatim>\<open>loop\<close>. \<open>effectEntry\<close> is the first \<^verbatim>\<open>if\<close> of the case
  \<^verbatim>\<open>NEOPIXEL_EFFECT\<close> (a change was requested), \<open>effectFrame\<close> the second (it is time
  for a new frame): \<open>millis0\<close> and \<open>millis1\<close> are what the two calls of \<^verbatim>\<open>millis()\<close>
  return. An effect function draws from \<^verbatim>\<open>actualFrame\<close>; its call, followed by
  \<^verbatim>\<open>FastLED.show()\<close>, is recorded as \<open>EffectFrame\<close> with the frame it drew.
\<close>

definition effectEntry :: "controller \<Rightarrow> controller" where
  "effectEntry s =
     (if changeNeopixel s \<noteq> 0
      then s\<lparr>shown := SetBrightness EFFECT_BRIGHTNESS # shown s,
             lastNeopixelRefresh := 0, actualFrame := 0\<rparr>
      else s)"

definition effectFrame :: "uint32_t \<Rightarrow> uint32_t \<Rightarrow> controller \<Rightarrow> controller" where
  "effectFrame millis0 millis1 s =
     (let activeEffect' = effects ! unat (activeEffect (settingOf s))
      in if lastNeopixelRefresh s + 33 \<le> millis0 then
           (let s1 = s\<lparr>shown := EffectFrame (effectFunction activeEffect') (actualFrame s) # shown s\<rparr>;
                s2 = s1\<lparr>actualFrame := actualFrame s1 + 1\<rparr>;
                s3 = (if sint (actualFrame s2) \<ge> sint (effectFrames activeEffect')
                      then s2\<lparr>actualFrame := 0\<rparr> else s2)
            in s3\<lparr>lastNeopixelRefresh := millis1\<rparr>)
         else s)"

text \<open>Arduino's \<^verbatim>\<open>map(x, 0, 100, 0, 255)\<close>, stored in a \<^verbatim>\<open>uint8_t\<close>.\<close>

definition mapBrightness :: "uint8_t \<Rightarrow> uint8_t" where
  "mapBrightness x = of_nat (unat x * 255 div 100)"

definition loopNeopixels :: "uint32_t \<Rightarrow> uint32_t \<Rightarrow> controller \<Rightarrow> controller" where
  "loopNeopixels millis0 millis1 s =
     (let s1 =
        (case programState (settingOf s) of
           NEOPIXEL_COLOR \<Rightarrow>
             (if changeNeopixel s \<noteq> 0 then
                (let c = colorsOf s ! unat (activeColor (settingOf s))
                 in s\<lparr>shown := ShowColor (rgb c) (mapBrightness (brtns c)) # shown s\<rparr>)
              else s)
         | NEOPIXEL_EFFECT \<Rightarrow> effectFrame millis0 millis1 (effectEntry s)
         | NEOPIXEL_OFF \<Rightarrow>
             (if changeNeopixel s \<noteq> 0 then s\<lparr>shown := Clear # shown s\<rparr> else s))
      in if changeNeopixel s1 \<noteq> 0 then s1\<lparr>changeNeopixel := 0\<rparr> else s1)"

section \<open>Case of letters\<close>

text \<open>
  \<^verbatim>\<open>tolower\<close> and \<^verbatim>\<open>toupper\<close> of the C library. Two spellings that differ only in the case of their
  letters have the same image under it.
\<close>

definition tolower :: "char \<Rightarrow> char" where
  "tolower c =
     (let n = (of_char c :: nat) in if 65 \<le> n \<and> n \<le> 90 then char_of (n + 32) else c)"

definition toupper :: "char \<Rightarrow> char" where
  "toupper c =
     (let n = (of_char c :: nat) in if 97 \<le> n \<and> n \<le> 122 then char_of (n - 32) else c)"

definition sameSpelling :: "string \<Rightarrow> string \<Rightarrow> bool" where
  "sameSpelling a b \<longleftrightarrow> map tolower a = map tolower b"

section \<open>Example states\<close>

text \<open>
  One byte layout to run examples with: members in the order of their declaration,
  the \<^verbatim>\<open>enum\<close> in four bytes (least significant first), members aligned to their
  size, padding bytes zero.
\<close>

definition stateByte :: "TProgram_States \<Rightarrow> uint8_t" where
  "stateByte p = (case p of NEOPIXEL_OFF \<Rightarrow> 0 | NEOPIXEL_COLOR \<Rightarrow> 1 | NEOPIXEL_EFFECT \<Rightarrow> 2)"

definition colorBytes :: "colorType \<Rightarrow> uint8_t list" where
  "colorBytes c = (case rgb c of (r, g, b) \<Rightarrow> [r, g, b, brtns c])"

definition exampleLayout :: layout where
  "exampleLayout st cs =
     [colorCount st, 0, 0, 0, stateByte (programState st), 0, 0, 0,
      activeColor st, activeEffect st, 0, 0] @ concat (map colorBytes cs)"

definition noColor :: colorType where
  "noColor = \<lparr>rgb = (0, 0, 0), brtns = 0\<rparr>"

definition red :: colorType where
  "red = \<lparr>rgb = (0xff, 0, 0), brtns = 50\<rparr>"

definition green :: colorType where
  "green = \<lparr>rgb = (0, 0xff, 0), brtns = 80\<rparr>"

definition blue :: colorType where
  "blue = \<lparr>rgb = (0, 0, 0xff), brtns = 100\<rparr>"

text \<open>A structure with the given saved colors, the other entries zero.\<close>

definition paletteOf :: "colorType list \<Rightarrow> colorType \<Rightarrow> TProgram_States \<Rightarrow> uint8_t \<Rightarrow> npControllerEEPROMType" where
  "paletteOf saved scratch p a =
     \<lparr>crc32 = 0,
      npControllerSetting =
        \<lparr>colorCount = of_nat (length saved), programState = p, activeColor = a, activeEffect = 0\<rparr>,
      colors = saved @ replicate (COLOR_COUNT - length saved) noColor @ [scratch]\<rparr>"

text \<open>The globals holding a given structure, everything else zero.\<close>

definition controllerOf :: "npControllerEEPROMType \<Rightarrow> controller" where
  "controllerOf e =
     \<lparr>npControllerEEPROM = e, actualFrame = 0, lastNeopixelRefresh = 0, changeNeopixel = 0,
      eeprom = e, flash = e, shown = []\<rparr>"

text \<open>
  Two saved colors with the device off, three saved colors with the last one shown,
  a full palette with the unsaved color shown, and a stored structure whose checksum
  field does not fit its contents.
\<close>

definition twoColorsAt :: "uint8_t \<Rightarrow> controller" where
  "twoColorsAt a = controllerOf (paletteOf [red, green] noColor NEOPIXEL_OFF a)"

definition threeColors :: controller where
  "threeColors = controllerOf (paletteOf [red, green, blue] noColor NEOPIXEL_COLOR 2)"

definition tenColors :: "colorType list" where
  "tenColors = map (\<lambda>n. \<lparr>rgb = (of_nat n, 0x10, 0x20), brtns = 10\<rparr>) [1 ..< 11]"

definition fullPalette :: controller where
  "fullPalette = controllerOf (paletteOf tenColors blue NEOPIXEL_COLOR 10)"

definition corruptRecord :: npControllerEEPROMType where
  "corruptRecord = paletteOf [red, green] blue NEOPIXEL_COLOR 1"

section \<open>Basic facts\<close>

lemma colorType_copy: "(c :: colorType)\<lparr>brtns := brtns x, rgb := rgb x\<rparr> = x"
  by simp

lemma colorType_assign: "(c :: colorType)\<lparr>brtns := b, rgb := r\<rparr> = \<lparr>rgb = r, brtns = b\<rparr>"
  by simp

lemma resetColor_eq: "resetColor (c :: colorType) = noColor"
  by (simp add: resetColor_def noColor_def)

lemma checkValidColor_cases: "checkValidColor h b = 0 \<or> checkValidColor h b = 1"
  by (simp add: checkValidColor_def)

subsection \<open>Searching the saved colors\<close>

lemma findColor_frame:
  "colorsOf s' = colorsOf s \<Longrightarrow> colorCount (settingOf s') = colorCount (settingOf s) \<Longrightarrow>
   findColor r b s' = findColor r b s"
  by (simp add: findColor_def)

lemma findColor_found:
  assumes "wellFormed s" and "findColor r b s \<noteq> of_nat COLOR_COUNT"
  shows "unat (findColor r b s) < unat (colorCount (settingOf s)) \<and>
         colorsOf s ! unat (findColor r b s) = \<lparr>rgb = r, brtns = b\<rparr>"
proof -
  let ?n = "unat (colorCount (settingOf s))"
  let ?P = "\<lambda>i. brtns (colorsOf s ! i) = b \<and> rgb (colorsOf s ! i) = r"
  from assms(2) obtain i where f: "find ?P [0 ..< ?n] = Some i"
    by (auto simp: findColor_def split: option.splits)
  then have i: "i < ?n" "?P i"
    by (auto simp: find_Some_iff)
  from assms(1) have "?n \<le> 10" by (simp add: wellFormed_def COLOR_COUNT_def)
  with i have u: "unat (of_nat i :: uint8_t) = i" by (simp add: unat_of_nat)
  from f have "findColor r b s = of_nat i" by (simp add: findColor_def)
  with u i show ?thesis by simp
qed

subsection \<open>Saving to the EEPROM\<close>

lemma saveEEPROM_snd:
  "snd (saveEEPROM L ok s) =
     s\<lparr>npControllerEEPROM := (npControllerEEPROM s)\<lparr>crc32 := calculateCRC32 (L (settingOf s) (colorsOf s))\<rparr>,
       eeprom := (npControllerEEPROM s)\<lparr>crc32 := calculateCRC32 (L (settingOf s) (colorsOf s))\<rparr>,
       flash := (if ok then (npControllerEEPROM s)\<lparr>crc32 := calculateCRC32 (L (settingOf s) (colorsOf s))\<rparr>
                 else flash s)\<rparr>"
  by (simp add: saveEEPROM_def Let_def)

lemma saveEEPROM_fst: "fst (saveEEPROM L ok s) = (if ok then 1 else 0)"
  by (simp add: saveEEPROM_def Let_def)

lemma resetLoop_length:
  "length (fold (\<lambda>i cs. cs[i := f (cs ! i)]) [0 ..< n] cs) = length cs"
  by (induction n) simp_all

lemma resetLoop_nth:
  "j < length cs \<Longrightarrow>
   fold (\<lambda>i cs. cs[i := f (cs ! i)]) [0 ..< n] cs ! j = (if j < n then f (cs ! j) else cs ! j)"
proof (induction n arbitrary: j)
  case 0
  then show ?case by simp
next
  case (Suc n)
  show ?case
  proof (cases "j = n")
    case True
    with Suc.prems Suc.IH [of n] show ?thesis
      by (simp add: resetLoop_length)
  next
    case False
    with Suc.prems Suc.IH [of j] show ?thesis
      by (auto simp: resetLoop_length)
  qed
qed

lemma resetEEPROM_fields:
  "settingOf (resetEEPROM L ok s)
     = \<lparr>colorCount = 0, programState = NEOPIXEL_OFF, activeColor = 0, activeEffect = 0\<rparr>"
  "colorsOf (resetEEPROM L ok s)
     = fold (\<lambda>i cs. cs[i := resetColor (cs ! i)]) [0 ..< COLOR_COUNT] (colorsOf s)"
  "crc32 (npControllerEEPROM (resetEEPROM L ok s))
     = calculateCRC32 (L (settingOf (resetEEPROM L ok s)) (colorsOf (resetEEPROM L ok s)))"
  "eeprom (resetEEPROM L ok s) = npControllerEEPROM (resetEEPROM L ok s)"
  "flash (resetEEPROM L ok s) = (if ok then npControllerEEPROM (resetEEPROM L ok s) else flash s)"
  by (simp_all add: resetEEPROM_def Let_def saveEEPROM_snd assign)

lemma setupEEPROM_mismatch:
  assumes "0 \<le> percentUsed"
    and "calculateCRC32 (L (npControllerSetting (eeprom s)) (colors (eeprom s))) \<noteq> crc32 (eeprom s)"
  shows "setupEEPROM L percentUsed ok s = resetEEPROM L ok (s\<lparr>npControllerEEPROM := eeprom s\<rparr>)"
  using assms by (simp add: setupEEPROM_def Let_def)

lemma corruptRecord_crc:
  "calculateCRC32 (exampleLayout (npControllerSetting corruptRecord) (colors corruptRecord))
     \<noteq> crc32 corruptRecord"
  by code_simp

section \<open>Loading a corrupted record\<close>

text \<open>
  Claim C1, as the sketch does it. When the checksum of the loaded structure does not
  match, \<^verbatim>\<open>setup()\<close> calls \<^verbatim>\<open>resetEEPROM\<close>: the settings become count 0, state off,
  active color 0 and active effect 0; the entries at the indices below
  \<open>COLOR_COUNT\<close> are zeroed; the entry at index \<open>COLOR_COUNT\<close>, the color that is not
  saved, keeps what was loaded. The structure gets its new checksum and is handed to
  the EEPROM at once: the buffer holds it, and so does the flash when the commit
  succeeds.
\<close>

theorem setupEEPROM_checksum_mismatch:
  assumes "0 \<le> percentUsed"
    and "calculateCRC32 (bytesOf (npControllerSetting (eeprom s)) (colors (eeprom s)))
           \<noteq> crc32 (eeprom s)"
    and "length (colors (eeprom s)) = COLOR_COUNT + 1"
    and "s' = setupEEPROM bytesOf percentUsed commitOk s"
  shows "settingOf s'
           = \<lparr>colorCount = 0, programState = NEOPIXEL_OFF, activeColor = 0, activeEffect = 0\<rparr>
       \<and> (\<forall>i < COLOR_COUNT. colorsOf s' ! i = noColor)
       \<and> colorsOf s' ! COLOR_COUNT = colors (eeprom s) ! COLOR_COUNT
       \<and> length (colorsOf s') = COLOR_COUNT + 1
       \<and> crc32 (npControllerEEPROM s') = calculateCRC32 (bytesOf (settingOf s') (colorsOf s'))
       \<and> eeprom s' = npControllerEEPROM s'
       \<and> flash s' = (if commitOk then npControllerEEPROM s' else flash s)"
proof -
  let ?s1 = "s\<lparr>npControllerEEPROM := eeprom s\<rparr>"
  have s': "s' = resetEEPROM bytesOf commitOk ?s1"
    unfolding assms(4) using assms(1,2) by (rule setupEEPROM_mismatch)
  have cs: "colorsOf s' = fold (\<lambda>i cs. cs[i := resetColor (cs ! i)]) [0 ..< COLOR_COUNT] (colors (eeprom s))"
    unfolding s' by (simp add: resetEEPROM_fields(2))
  have "\<forall>i < COLOR_COUNT. colorsOf s' ! i = noColor"
    using assms(3) by (simp add: cs resetLoop_nth) (simp add: resetColor_eq)
  moreover have "colorsOf s' ! COLOR_COUNT = colors (eeprom s) ! COLOR_COUNT"
    using assms(3) by (simp add: cs resetLoop_nth)
  moreover have "length (colorsOf s') = COLOR_COUNT + 1"
    using assms(3) by (simp add: cs resetLoop_length)
  moreover have "flash s' = (if commitOk then npControllerEEPROM s' else flash s)"
    unfolding s' by (simp add: resetEEPROM_fields(5))
  ultimately show ?thesis
    unfolding s' by (simp add: resetEEPROM_fields(1,3,4))
qed

theorem setupEEPROM_checksum_mismatch_witness:
  "(0 :: int) \<le> 0
   \<and> calculateCRC32 (exampleLayout (npControllerSetting (eeprom (controllerOf corruptRecord)))
         (colors (eeprom (controllerOf corruptRecord))))
       \<noteq> crc32 (eeprom (controllerOf corruptRecord))
   \<and> length (colors (eeprom (controllerOf corruptRecord))) = COLOR_COUNT + 1
   \<and> colorCount (settingOf (setupEEPROM exampleLayout 0 True (controllerOf corruptRecord))) = 0
   \<and> programState (settingOf (setupEEPROM exampleLayout 0 True (controllerOf corruptRecord)))
       = NEOPIXEL_OFF
   \<and> colorsOf (setupEEPROM exampleLayout 0 True (controllerOf corruptRecord)) ! 0 = noColor
   \<and> colorsOf (setupEEPROM exampleLayout 0 True (controllerOf corruptRecord)) ! 1 = noColor
   \<and> colorsOf (setupEEPROM exampleLayout 0 True (controllerOf corruptRecord)) ! COLOR_COUNT = blue
   \<and> flash (setupEEPROM exampleLayout 0 True (controllerOf corruptRecord))
       = npControllerEEPROM (setupEEPROM exampleLayout 0 True (controllerOf corruptRecord))"
proof -
  have e: "eeprom (controllerOf corruptRecord) = corruptRecord"
    by (simp add: controllerOf_def)
  have h1: "(0 :: int) \<le> 0" by simp
  have h2: "calculateCRC32 (exampleLayout (npControllerSetting (eeprom (controllerOf corruptRecord)))
         (colors (eeprom (controllerOf corruptRecord))))
       \<noteq> crc32 (eeprom (controllerOf corruptRecord))"
    unfolding e by (rule corruptRecord_crc)
  have h3: "length (colors (eeprom (controllerOf corruptRecord))) = COLOR_COUNT + 1"
    unfolding e by code_simp
  have c: "colors (eeprom (controllerOf corruptRecord)) ! COLOR_COUNT = blue"
    unfolding e by code_simp
  from setupEEPROM_checksum_mismatch
         [where bytesOf = exampleLayout and s = "controllerOf corruptRecord"
            and percentUsed = 0 and commitOk = True, OF h1 h2 h3 refl]
       h1 h2 h3 c
  show ?thesis by (simp add: COLOR_COUNT_def)
qed

text \<open>
  The claim as it is written also has the entry at index \<open>COLOR_COUNT\<close> zeroed. The
  loop of \<^verbatim>\<open>resetEEPROM\<close> stops before that index: a stored structure with a wrong
  checksum and a color in that entry keeps the color.
\<close>

theorem setupEEPROM_scratch_counterexample:
  "calculateCRC32 (exampleLayout (npControllerSetting (eeprom (controllerOf corruptRecord)))
         (colors (eeprom (controllerOf corruptRecord))))
     \<noteq> crc32 (eeprom (controllerOf corruptRecord))
   \<and> colorsOf (setupEEPROM exampleLayout 0 True (controllerOf corruptRecord)) ! COLOR_COUNT
       \<noteq> \<lparr>rgb = (0, 0, 0), brtns = 0\<rparr>"
proof -
  have e: "eeprom (controllerOf corruptRecord) = corruptRecord"
    by (simp add: controllerOf_def)
  have m: "calculateCRC32 (exampleLayout (npControllerSetting (eeprom (controllerOf corruptRecord)))
         (colors (eeprom (controllerOf corruptRecord))))
       \<noteq> crc32 (eeprom (controllerOf corruptRecord))"
    unfolding e by (rule corruptRecord_crc)
  have "colorsOf (setupEEPROM exampleLayout 0 True (controllerOf corruptRecord))
          = fold (\<lambda>i cs. cs[i := resetColor (cs ! i)]) [0 ..< COLOR_COUNT] (colors corruptRecord)"
    by (simp add: setupEEPROM_mismatch
          [where L = exampleLayout and s = "controllerOf corruptRecord", OF _ m]
        resetEEPROM_fields(2) e)
  moreover have "fold (\<lambda>i cs. cs[i := resetColor (cs ! i)]) [0 ..< COLOR_COUNT] (colors corruptRecord)
                   ! COLOR_COUNT \<noteq> \<lparr>rgb = (0, 0, 0), brtns = 0\<rparr>"
    by code_simp
  ultimately show ?thesis using m by simp
qed

section \<open>Single clicks\<close>

text \<open>
  Claim C2, as the sketch does it. With two saved colors, the device off and the
  active color either 0 or the unsaved one (\<open>COLOR_COUNT\<close>), three single clicks
  give: state color with active color 0, then active color 1 with the state still
  color, then state off with active color 0. The palette is not touched.
\<close>

theorem processClick_single_cycle:
  assumes "colorCount (settingOf s) = 2" and "programState (settingOf s) = NEOPIXEL_OFF"
    and "activeColor (settingOf s) = 0 \<or> activeColor (settingOf s) = of_nat COLOR_COUNT"
    and "s1 = processClick BUTTON_SINGLE_CLICK s"
    and "s2 = processClick BUTTON_SINGLE_CLICK s1"
    and "s3 = processClick BUTTON_SINGLE_CLICK s2"
  shows "programState (settingOf s1) = NEOPIXEL_COLOR \<and> activeColor (settingOf s1) = 0
       \<and> programState (settingOf s2) = NEOPIXEL_COLOR \<and> activeColor (settingOf s2) = 1
       \<and> programState (settingOf s3) = NEOPIXEL_OFF \<and> activeColor (settingOf s3) = 0
       \<and> colorCount (settingOf s3) = 2 \<and> colorsOf s3 = colorsOf s"
proof -
  have click: "BUTTON_SINGLE_CLICK \<noteq> BUTTON_LONG_CLICK"
    by (simp add: BUTTON_SINGLE_CLICK_def BUTTON_LONG_CLICK_def)
  have s1: "programState (settingOf s1) = NEOPIXEL_COLOR" "activeColor (settingOf s1) = 0"
    "colorCount (settingOf s1) = 2" "colorsOf s1 = colorsOf s"
    using assms(1,2,3) unfolding assms(4)
    by (auto simp: processClick_def Let_def click assign COLOR_COUNT_def)
  have s2: "programState (settingOf s2) = NEOPIXEL_COLOR" "activeColor (settingOf s2) = 1"
    "colorCount (settingOf s2) = 2" "colorsOf s2 = colorsOf s"
    using s1 unfolding assms(5)
    by (auto simp: processClick_def Let_def click assign COLOR_COUNT_def)
  have s3: "programState (settingOf s3) = NEOPIXEL_OFF" "activeColor (settingOf s3) = 0"
    "colorCount (settingOf s3) = 2" "colorsOf s3 = colorsOf s"
    using s2 unfolding assms(6)
    by (auto simp: processClick_def Let_def click assign COLOR_COUNT_def)
  from s1 s2 s3 show ?thesis by simp
qed

theorem processClick_single_cycle_witness:
  "colorCount (settingOf (twoColorsAt 0)) = 2
   \<and> programState (settingOf (twoColorsAt 0)) = NEOPIXEL_OFF
   \<and> (activeColor (settingOf (twoColorsAt 0)) = 0
        \<or> activeColor (settingOf (twoColorsAt 0)) = of_nat COLOR_COUNT)
   \<and> activeColor (settingOf (processClick BUTTON_SINGLE_CLICK (twoColorsAt 0))) = 0
   \<and> activeColor (settingOf (processClick BUTTON_SINGLE_CLICK
         (processClick BUTTON_SINGLE_CLICK (twoColorsAt 0)))) = 1
   \<and> programState (settingOf (processClick BUTTON_SINGLE_CLICK
         (processClick BUTTON_SINGLE_CLICK (processClick BUTTON_SINGLE_CLICK (twoColorsAt 0)))))
       = NEOPIXEL_OFF"
proof -
  have h1: "colorCount (settingOf (twoColorsAt 0)) = 2" by code_simp
  have h2: "programState (settingOf (twoColorsAt 0)) = NEOPIXEL_OFF" by code_simp
  have h3: "activeColor (settingOf (twoColorsAt 0)) = 0
        \<or> activeColor (settingOf (twoColorsAt 0)) = of_nat COLOR_COUNT" by code_simp
  from processClick_single_cycle [OF h1 h2 h3 refl refl refl] h1 h2 h3
  show ?thesis by simp
qed

text \<open>
  The claim as it is written leaves the active color open. With the second saved
  color active when the device went off, the first click resumes that color: the
  active color is 1, not 0.
\<close>

theorem processClick_resume_counterexample:
  "colorCount (settingOf (twoColorsAt 1)) = 2
   \<and> programState (settingOf (twoColorsAt 1)) = NEOPIXEL_OFF
   \<and> take 2 (colorsOf (twoColorsAt 1)) = [red, green]
   \<and> programState (settingOf (processClick BUTTON_SINGLE_CLICK (twoColorsAt 1))) = NEOPIXEL_COLOR
   \<and> activeColor (settingOf (processClick BUTTON_SINGLE_CLICK (twoColorsAt 1))) = 1
   \<and> activeColor (settingOf (processClick BUTTON_SINGLE_CLICK (twoColorsAt 1))) \<noteq> 0"
  by code_simp

section \<open>Saving into a full palette\<close>

text \<open>
  Claim C3. When \<open>colorCount\<close> is \<open>COLOR_COUNT\<close>, \<^verbatim>\<open>saveRequest\<close> returns 4 (no more
  space) for every color string and every brightness, whatever the commit would
  answer, and leaves all of the state as it was.
\<close>

theorem saveRequest_full:
  assumes "colorCount (settingOf s) = of_nat COLOR_COUNT"
  shows "saveRequest bytesOf commitOk rgbHex brightness s = (4, s)"
  using assms by (simp add: saveRequest_def)

theorem saveRequest_full_witness:
  "colorCount (settingOf fullPalette) = of_nat COLOR_COUNT
   \<and> checkValidColor ''xyz'' 200 = 0
   \<and> saveRequest exampleLayout True ''xyz'' 200 fullPalette = (4, fullPalette)
   \<and> checkValidColor ''011020'' 10 = 1
   \<and> findColor (parseHexColor ''011020'') 10 fullPalette = 0
   \<and> saveRequest exampleLayout True ''011020'' 10 fullPalette = (4, fullPalette)"
proof -
  have h: "colorCount (settingOf fullPalette) = of_nat COLOR_COUNT" by code_simp
  have a: "checkValidColor ''xyz'' 200 = 0" "checkValidColor ''011020'' 10 = 1"
    "findColor (parseHexColor ''011020'') 10 fullPalette = 0"
    by code_simp+
  from saveRequest_full [OF h, of exampleLayout True "''xyz''" 200]
    saveRequest_full [OF h, of exampleLayout True "''011020''" 10] h a
  show ?thesis by simp
qed

section \<open>Setting a color\<close>

lemma colorRequest_valid:
  assumes "checkValidColor h b \<noteq> 0"
  shows "colorRequest h b s =
    (1, setActiveColor (findColor (parseHexColor h) b s)
          (setColor (unat (findColor (parseHexColor h) b s)) b (parseHexColor h)
             ((setState NEOPIXEL_COLOR s)\<lparr>changeNeopixel := 1\<rparr>)))"
proof -
  from assms checkValidColor_cases [of h b] have v: "checkValidColor h b = 1" by auto
  have f: "findColor (parseHexColor h) b ((setState NEOPIXEL_COLOR s)\<lparr>changeNeopixel := 1\<rparr>)
             = findColor (parseHexColor h) b s"
    by (rule findColor_frame) (simp_all add: assign)
  show ?thesis
    by (simp add: colorRequest_def v Let_def f)
qed

lemma colorRequest_colors:
  assumes "checkValidColor h b \<noteq> 0"
  shows "colorsOf (snd (colorRequest h b s))
           = (colorsOf s)[unat (findColor (parseHexColor h) b s) := \<lparr>rgb = parseHexColor h, brtns = b\<rparr>]"
    and "colorCount (settingOf (snd (colorRequest h b s))) = colorCount (settingOf s)"
  using assms by (simp_all add: colorRequest_valid assign colorType_assign)

text \<open>
  Claim C8. A valid \<^verbatim>\<open>colorRequest\<close> leaves \<open>colorCount\<close> and every entry below it as
  they were. When the color is found among the saved ones the whole array is
  unchanged (the entry written is the entry found); when it is not found, the only
  entry written is the one at index \<open>COLOR_COUNT\<close>.
\<close>

theorem colorRequest_keeps_saved:
  assumes "wellFormed s" and "checkValidColor rgbHex brightness \<noteq> 0"
  shows "colorCount (settingOf (snd (colorRequest rgbHex brightness s))) = colorCount (settingOf s)
    \<and> (\<forall>i < unat (colorCount (settingOf s)).
          colorsOf (snd (colorRequest rgbHex brightness s)) ! i = colorsOf s ! i)
    \<and> (findColor (parseHexColor rgbHex) brightness s \<noteq> of_nat COLOR_COUNT \<longrightarrow>
          colorsOf (snd (colorRequest rgbHex brightness s)) = colorsOf s)
    \<and> (findColor (parseHexColor rgbHex) brightness s = of_nat COLOR_COUNT \<longrightarrow>
          colorsOf (snd (colorRequest rgbHex brightness s))
            = (colorsOf s)[COLOR_COUNT := \<lparr>rgb = parseHexColor rgbHex, brtns = brightness\<rparr>])"
proof -
  let ?r = "parseHexColor rgbHex"
  let ?i = "findColor ?r brightness s"
  let ?s' = "snd (colorRequest rgbHex brightness s)"
  note cs = colorRequest_colors(1) [OF assms(2), of s]
  note n = colorRequest_colors(2) [OF assms(2), of s]
  have found: "colorsOf ?s' = colorsOf s" if "?i \<noteq> of_nat COLOR_COUNT"
    using findColor_found [OF assms(1) that] cs by (metis list_update_id)
  have scratch: "colorsOf ?s' = (colorsOf s)[COLOR_COUNT := \<lparr>rgb = ?r, brtns = brightness\<rparr>]"
    if "?i = of_nat COLOR_COUNT"
    using that cs by (simp add: COLOR_COUNT_def)
  have saved: "colorsOf ?s' ! j = colorsOf s ! j" if "j < unat (colorCount (settingOf s))" for j
  proof (cases "?i = of_nat COLOR_COUNT")
    case True
    from assms(1) that have "j \<noteq> COLOR_COUNT" by (simp add: wellFormed_def)
    with scratch [OF True] show ?thesis by simp
  next
    case False
    with found show ?thesis by simp
  qed
  from n found scratch saved show ?thesis by blast
qed

theorem colorRequest_keeps_saved_witness:
  "wellFormed (twoColorsAt 0) \<and> checkValidColor ''0000FF'' 100 \<noteq> 0
   \<and> findColor (parseHexColor ''0000FF'') 100 (twoColorsAt 0) = of_nat COLOR_COUNT
   \<and> colorCount (settingOf (snd (colorRequest ''0000FF'' 100 (twoColorsAt 0)))) = 2
   \<and> colorsOf (snd (colorRequest ''0000FF'' 100 (twoColorsAt 0))) ! 0 = red
   \<and> colorsOf (snd (colorRequest ''0000FF'' 100 (twoColorsAt 0))) ! 1 = green
   \<and> colorsOf (snd (colorRequest ''0000FF'' 100 (twoColorsAt 0))) ! COLOR_COUNT = blue
   \<and> findColor (parseHexColor ''00ff00'') 80 (twoColorsAt 0) = 1
   \<and> colorsOf (snd (colorRequest ''00ff00'' 80 (twoColorsAt 0))) = colorsOf (twoColorsAt 0)"
proof -
  have h1: "wellFormed (twoColorsAt 0)" by code_simp
  have h2: "checkValidColor ''0000FF'' 100 \<noteq> 0" "checkValidColor ''00ff00'' 80 \<noteq> 0"
    by code_simp+
  have n: "colorCount (settingOf (twoColorsAt 0)) = 2" by code_simp
  have c: "colorsOf (twoColorsAt 0) ! 0 = red" "colorsOf (twoColorsAt 0) ! 1 = green"
    by code_simp+
  have f: "findColor (parseHexColor ''0000FF'') 100 (twoColorsAt 0) = of_nat COLOR_COUNT"
    "findColor (parseHexColor ''00ff00'') 80 (twoColorsAt 0) = 1"
    by code_simp+
  have p: "parseHexColor ''0000FF'' = (0, 0, 0xff)" by code_simp
  have l: "length (colorsOf (twoColorsAt 0)) = 11" by code_simp
  from colorRequest_keeps_saved [OF h1 h2(1)] colorRequest_keeps_saved [OF h1 h2(2)]
    h1 h2 n c f p l
  show ?thesis by (simp add: blue_def COLOR_COUNT_def)
qed

text \<open>
  Claim C6. \<^verbatim>\<open>colorRequest\<close> is idempotent: a second call with the same color string
  and brightness returns the same result and leaves the whole state (settings,
  palette and the change flag) as the first call left it. This holds for every
  input; for an invalid one neither call changes anything.
\<close>

theorem colorRequest_idempotent:
  assumes "wellFormed s"
  shows "colorRequest rgbHex brightness (snd (colorRequest rgbHex brightness s))
           = colorRequest rgbHex brightness s"
proof (cases "checkValidColor rgbHex brightness = 0")
  case True
  then show ?thesis by (simp add: colorRequest_def)
next
  case False
  let ?r = "parseHexColor rgbHex"
  let ?i = "findColor ?r brightness s"
  let ?s' = "snd (colorRequest rgbHex brightness s)"
  let ?e = "\<lparr>rgb = ?r, brtns = brightness\<rparr>"
  note cs = colorRequest_colors(1) [OF False, of s]
  note n = colorRequest_colors(2) [OF False, of s]
  have same: "findColor ?r brightness ?s' = ?i"
  proof (cases "?i = of_nat COLOR_COUNT")
    case True
    let ?n = "unat (colorCount (settingOf s))"
    from assms have "?n \<le> COLOR_COUNT" by (simp add: wellFormed_def)
    then have "\<forall>j \<in> set [0 ..< ?n]. colorsOf ?s' ! j = colorsOf s ! j"
      using cs True by (simp add: COLOR_COUNT_def)
    then have "find (\<lambda>i. brtns (colorsOf ?s' ! i) = brightness \<and> rgb (colorsOf ?s' ! i) = ?r) [0 ..< ?n]
             = find (\<lambda>i. brtns (colorsOf s ! i) = brightness \<and> rgb (colorsOf s ! i) = ?r) [0 ..< ?n]"
      by (intro find_cong) simp_all
    then show ?thesis by (simp add: findColor_def n)
  next
    case False
    from findColor_found [OF assms False] cs have "colorsOf ?s' = colorsOf s"
      by (metis list_update_id)
    then show ?thesis using n by (rule findColor_frame)
  qed
  let ?t = "setActiveColor ?i (setColor (unat ?i) brightness ?r
              ((setState NEOPIXEL_COLOR s)\<lparr>changeNeopixel := 1\<rparr>))"
  have first: "colorRequest rgbHex brightness s = (1, ?t)"
    by (rule colorRequest_valid [OF False])
  with same have same': "findColor ?r brightness ?t = ?i" by simp
  have "colorRequest rgbHex brightness ?t
          = (1, setActiveColor ?i (setColor (unat ?i) brightness ?r
                  ((setState NEOPIXEL_COLOR ?t)\<lparr>changeNeopixel := 1\<rparr>)))"
    by (simp only: colorRequest_valid [OF False] same')
  also have "\<dots> = (1, ?t)"
    by (simp add: assign colorType_assign)
  finally show ?thesis by (simp add: first)
qed

theorem colorRequest_idempotent_witness:
  "wellFormed (twoColorsAt 0)
   \<and> checkValidColor ''0000FF'' 100 = 1
   \<and> activeColor (settingOf (snd (colorRequest ''0000FF'' 100 (twoColorsAt 0)))) = of_nat COLOR_COUNT
   \<and> colorRequest ''0000FF'' 100 (snd (colorRequest ''0000FF'' 100 (twoColorsAt 0)))
       = colorRequest ''0000FF'' 100 (twoColorsAt 0)"
proof -
  have h1: "wellFormed (twoColorsAt 0)" by code_simp
  have v: "checkValidColor ''0000FF'' 100 = 1" by code_simp
  have a: "activeColor (settingOf (snd (colorRequest ''0000FF'' 100 (twoColorsAt 0))))
             = of_nat COLOR_COUNT" by code_simp
  from colorRequest_idempotent [OF h1, of "''0000FF''" 100] h1 v a show ?thesis by simp
qed

section \<open>Deleting a saved color\<close>

lemma shiftDown_length: "length (shiftDown k n cs) = length cs"
proof (induction n)
  case 0
  then show ?case by (simp add: shiftDown_def)
next
  case (Suc n)
  then show ?case by (cases "k + 1 \<le> n") (simp_all add: shiftDown_def)
qed

lemma shiftDown_nth:
  "n \<le> length cs \<Longrightarrow> j < length cs \<Longrightarrow>
   shiftDown k n cs ! j = (if k \<le> j \<and> Suc j < n then cs ! Suc j else cs ! j)"
proof (induction n arbitrary: j)
  case 0
  then show ?case by (simp add: shiftDown_def)
next
  case (Suc n)
  show ?case
  proof (cases "k + 1 \<le> n")
    case False
    then show ?thesis by (auto simp: shiftDown_def)
  next
    case True
    let ?cs = "shiftDown k n cs"
    from True have step: "shiftDown k (Suc n) cs = ?cs[n - 1 := ?cs ! n]"
      by (simp add: shiftDown_def colorType_copy)
    from Suc.prems have n: "n < length cs" "n \<le> length cs" by simp_all
    from Suc.IH [OF n(2) n(1)] have last: "?cs ! n = cs ! n" by simp
    show ?thesis
    proof (cases "j = n - 1")
      case True
      with \<open>k + 1 \<le> n\<close> n Suc.prems show ?thesis
        by (simp add: step last shiftDown_length)
    next
      case False
      with Suc.IH [OF n(2) Suc.prems(2)] True show ?thesis
        by (auto simp: step)
    qed
  qed
qed

lemma deleteRequest_found:
  assumes "checkValidColor h b \<noteq> 0"
    and "findColor (parseHexColor h) b s \<noteq> of_nat COLOR_COUNT"
  shows "fst (deleteRequest L ok h b s) = (if ok then 1 else 0)"
    and "colorsOf (snd (deleteRequest L ok h b s))
           = shiftDown (unat (findColor (parseHexColor h) b s)) (unat (colorCount (settingOf s)))
               ((colorsOf s)[unat (findColor (parseHexColor h) b s) := noColor])"
    and "colorCount (settingOf (snd (deleteRequest L ok h b s))) = colorCount (settingOf s) - 1"
    and "activeColor (settingOf (snd (deleteRequest L ok h b s)))
           = (if activeColor (settingOf s) = findColor (parseHexColor h) b s then 0
              else if activeColor (settingOf s) > findColor (parseHexColor h) b s
              then activeColor (settingOf s) - 1
              else activeColor (settingOf s))"
  using assms
  by (simp_all add: deleteRequest_def Let_def saveEEPROM_snd saveEEPROM_fst assign resetColor_eq)

lemma deleteRequest_result:
  assumes "checkValidColor h b \<noteq> 0"
    and "findColor (parseHexColor h) b s \<noteq> of_nat COLOR_COUNT"
  shows "deleteRequest L True h b s = (1, snd (deleteRequest L True h b s))"
  using deleteRequest_found(1) [OF assms, of L True] by (simp add: prod_eq_iff)

text \<open>
  Claim C4. After a successful \<^verbatim>\<open>deleteRequest\<close> of the saved entry at index \<open>i\<close>: an
  active color equal to \<open>i\<close> becomes 0, an active color above \<open>i\<close> is decremented by
  one, an active color below \<open>i\<close> stays.
\<close>

theorem deleteRequest_activeColor:
  assumes "wellFormed s" and "checkValidColor rgbHex brightness \<noteq> 0"
    and "findColor (parseHexColor rgbHex) brightness s = i" and "i \<noteq> of_nat COLOR_COUNT"
    and "deleteRequest bytesOf commitOk rgbHex brightness s = (1, s')"
  shows "unat i < unat (colorCount (settingOf s))
       \<and> (activeColor (settingOf s) = i \<longrightarrow> activeColor (settingOf s') = 0)
       \<and> (activeColor (settingOf s) > i \<longrightarrow>
            activeColor (settingOf s') = activeColor (settingOf s) - 1
            \<and> unat (activeColor (settingOf s')) = unat (activeColor (settingOf s)) - 1)
       \<and> (activeColor (settingOf s) < i \<longrightarrow> activeColor (settingOf s') = activeColor (settingOf s))"
proof -
  from assms(3,4) have f: "findColor (parseHexColor rgbHex) brightness s \<noteq> of_nat COLOR_COUNT"
    by simp
  from assms(5) have s': "s' = snd (deleteRequest bytesOf commitOk rgbHex brightness s)" by simp
  from findColor_found [OF assms(1) f] assms(3)
  have saved: "unat i < unat (colorCount (settingOf s))" by simp
  have a: "activeColor (settingOf s') =
      (if activeColor (settingOf s) = i then 0
       else if activeColor (settingOf s) > i then activeColor (settingOf s) - 1
       else activeColor (settingOf s))"
    unfolding s' using deleteRequest_found(4) [OF assms(2) f] assms(3) by simp
  have "unat (activeColor (settingOf s) - 1) = unat (activeColor (settingOf s)) - 1"
    if "activeColor (settingOf s) > i"
  proof -
    from that have "activeColor (settingOf s) \<noteq> 0" by (auto simp: word_less_nat_alt)
    then show ?thesis by (rule unat_minus_one)
  qed
  with a saved show ?thesis by auto
qed

theorem deleteRequest_activeColor_witness:
  "wellFormed threeColors \<and> checkValidColor ''FF0000'' 50 \<noteq> 0
   \<and> findColor (parseHexColor ''FF0000'') 50 threeColors = 0
   \<and> (0 :: uint8_t) \<noteq> of_nat COLOR_COUNT
   \<and> deleteRequest exampleLayout True ''FF0000'' 50 threeColors
        = (1, snd (deleteRequest exampleLayout True ''FF0000'' 50 threeColors))
   \<and> activeColor (settingOf threeColors) = 2
   \<and> activeColor (settingOf (snd (deleteRequest exampleLayout True ''FF0000'' 50 threeColors))) = 1"
proof -
  have h1: "wellFormed threeColors" by code_simp
  have h2: "checkValidColor ''FF0000'' 50 \<noteq> 0" by code_simp
  have h3: "findColor (parseHexColor ''FF0000'') 50 threeColors = 0" by code_simp
  have h4: "(0 :: uint8_t) \<noteq> of_nat COLOR_COUNT" by code_simp
  from h3 h4 have f: "findColor (parseHexColor ''FF0000'') 50 threeColors \<noteq> of_nat COLOR_COUNT"
    by simp
  note h5 = deleteRequest_result [OF h2 f, of exampleLayout]
  have a: "activeColor (settingOf threeColors) = 2" by code_simp
  from deleteRequest_activeColor [OF h1 h2 h3 h4 h5] h1 h2 h3 h4 h5 a
  show ?thesis by simp
qed

text \<open>
  Claim C5. After a successful \<^verbatim>\<open>deleteRequest\<close> of the saved entry at index \<open>i\<close>:
  \<open>colorCount\<close> is one less, every entry below \<open>i\<close> stays at its index, every saved
  entry above \<open>i\<close> is found one index lower, and the saved entries are the old ones
  without entry \<open>i\<close>, in the same order. The entry at index \<open>COLOR_COUNT\<close> is not
  touched. This covers every saved index \<open>i\<close>, the last one included.
\<close>

theorem deleteRequest_shifts:
  assumes "wellFormed s" and "checkValidColor rgbHex brightness \<noteq> 0"
    and "findColor (parseHexColor rgbHex) brightness s = i" and "i \<noteq> of_nat COLOR_COUNT"
    and "deleteRequest bytesOf commitOk rgbHex brightness s = (1, s')"
  shows "unat i < unat (colorCount (settingOf s))
       \<and> unat (colorCount (settingOf s')) = unat (colorCount (settingOf s)) - 1
       \<and> (\<forall>j < unat i. colorsOf s' ! j = colorsOf s ! j)
       \<and> (\<forall>j. unat i < j \<and> j < unat (colorCount (settingOf s)) \<longrightarrow>
              colorsOf s' ! (j - 1) = colorsOf s ! j)
       \<and> take (unat (colorCount (settingOf s'))) (colorsOf s')
            = take (unat i) (colorsOf s)
              @ drop (Suc (unat i)) (take (unat (colorCount (settingOf s))) (colorsOf s))
       \<and> colorsOf s' ! COLOR_COUNT = colorsOf s ! COLOR_COUNT
       \<and> length (colorsOf s') = length (colorsOf s)"
proof -
  let ?k = "unat i" and ?n = "unat (colorCount (settingOf s))" and ?cs = "colorsOf s"
  let ?cs1 = "?cs[?k := noColor]"
  from assms(3,4) have f: "findColor (parseHexColor rgbHex) brightness s \<noteq> of_nat COLOR_COUNT"
    by simp
  from assms(5) have s': "s' = snd (deleteRequest bytesOf commitOk rgbHex brightness s)" by simp
  from findColor_found [OF assms(1) f] assms(1,3)
  have k: "?k < ?n" and n: "?n \<le> 10" and len: "length ?cs = 11"
    by (simp_all add: wellFormed_def COLOR_COUNT_def)
  have cs': "colorsOf s' = shiftDown ?k ?n ?cs1"
    unfolding s' using deleteRequest_found(2) [OF assms(2) f] assms(3) by simp
  have nth: "colorsOf s' ! j = (if ?k \<le> j \<and> Suc j < ?n then ?cs1 ! Suc j else ?cs1 ! j)"
    if "j < 11" for j
    unfolding cs' using that n len by (intro shiftDown_nth) simp_all
  have below: "colorsOf s' ! j = ?cs ! j" if "j < ?k" for j
    using that k n nth [of j] by simp
  have above: "colorsOf s' ! (j - 1) = ?cs ! j" if "?k < j" "j < ?n" for j
    using that n nth [of "j - 1"] by simp
  have scratch: "colorsOf s' ! 10 = ?cs ! 10"
    using k n nth [of 10] by simp
  have length: "length (colorsOf s') = length ?cs"
    by (simp add: cs' shiftDown_length)
  from k have "colorCount (settingOf s) \<noteq> 0" by auto
  then have "unat (colorCount (settingOf s) - 1) = ?n - 1" by (rule unat_minus_one)
  then have count: "unat (colorCount (settingOf s')) = ?n - 1"
    unfolding s' by (simp add: deleteRequest_found(3) [OF assms(2) f])
  have saved: "take (?n - 1) (colorsOf s') = take ?k ?cs @ drop (Suc ?k) (take ?n ?cs)"
  proof (rule nth_equalityI)
    show "length (take (?n - 1) (colorsOf s')) = length (take ?k ?cs @ drop (Suc ?k) (take ?n ?cs))"
      using k n len length by simp
  next
    fix j
    assume "j < length (take (?n - 1) (colorsOf s'))"
    with n len length have j: "j < ?n - 1" by simp
    show "take (?n - 1) (colorsOf s') ! j = (take ?k ?cs @ drop (Suc ?k) (take ?n ?cs)) ! j"
    proof (cases "j < ?k")
      case True
      with j k n len below [OF True] show ?thesis by (simp add: nth_append)
    next
      case False
      with j have "?k < Suc j" "Suc j < ?n" by simp_all
      from above [OF this] False j k n len show ?thesis by (simp add: nth_append)
    qed
  qed
  from k count below above saved scratch length show ?thesis
    by (simp add: COLOR_COUNT_def)
qed

theorem deleteRequest_shifts_witness:
  "wellFormed threeColors \<and> checkValidColor ''FF0000'' 50 \<noteq> 0
   \<and> findColor (parseHexColor ''FF0000'') 50 threeColors = 0
   \<and> (0 :: uint8_t) \<noteq> of_nat COLOR_COUNT
   \<and> deleteRequest exampleLayout True ''FF0000'' 50 threeColors
        = (1, snd (deleteRequest exampleLayout True ''FF0000'' 50 threeColors))
   \<and> take 3 (colorsOf threeColors) = [red, green, blue]
   \<and> unat (colorCount (settingOf (snd (deleteRequest exampleLayout True ''FF0000'' 50 threeColors))))
        = 2
   \<and> take 2 (colorsOf (snd (deleteRequest exampleLayout True ''FF0000'' 50 threeColors)))
        = [green, blue]"
proof -
  have h1: "wellFormed threeColors" by code_simp
  have h2: "checkValidColor ''FF0000'' 50 \<noteq> 0" by code_simp
  have h3: "findColor (parseHexColor ''FF0000'') 50 threeColors = 0" by code_simp
  have h4: "(0 :: uint8_t) \<noteq> of_nat COLOR_COUNT" by code_simp
  from h3 h4 have f: "findColor (parseHexColor ''FF0000'') 50 threeColors \<noteq> of_nat COLOR_COUNT"
    by simp
  note h5 = deleteRequest_result [OF h2 f, of exampleLayout]
  have n: "unat (colorCount (settingOf threeColors)) = 3" by code_simp
  have c: "take 3 (colorsOf threeColors) = [red, green, blue]" by code_simp
  from deleteRequest_shifts [OF h1 h2 h3 h4 h5] h1 h2 h3 h4 h5 n c
  show ?thesis by (elim conjE) simp
qed

text \<open>
  Claim C9. When the unsaved color is shown (the active color is \<open>COLOR_COUNT\<close>) and
  a saved entry is deleted successfully, the active color becomes \<open>COLOR_COUNT - 1\<close>,
  that is 9: it is above every saved index, so it is decremented. Afterwards it is
  not \<open>COLOR_COUNT\<close> and not below \<open>colorCount\<close>, so it is the index of neither the
  unsaved color nor a saved one; when the palette was full it equals \<open>colorCount\<close>.
\<close>

theorem deleteRequest_scratch_active:
  assumes "wellFormed s" and "activeColor (settingOf s) = of_nat COLOR_COUNT"
    and "checkValidColor rgbHex brightness \<noteq> 0"
    and "findColor (parseHexColor rgbHex) brightness s \<noteq> of_nat COLOR_COUNT"
    and "deleteRequest bytesOf commitOk rgbHex brightness s = (1, s')"
  shows "activeColor (settingOf s') = of_nat (COLOR_COUNT - 1)
       \<and> activeColor (settingOf s') = 9
       \<and> activeColor (settingOf s') \<noteq> of_nat COLOR_COUNT
       \<and> unat (colorCount (settingOf s')) \<le> unat (activeColor (settingOf s'))
       \<and> (colorCount (settingOf s) = of_nat COLOR_COUNT \<longrightarrow>
            activeColor (settingOf s') = colorCount (settingOf s'))"
proof -
  let ?i = "findColor (parseHexColor rgbHex) brightness s"
  from assms(5) have s': "s' = snd (deleteRequest bytesOf commitOk rgbHex brightness s)" by simp
  from findColor_found [OF assms(1,4)] assms(1)
  have i: "unat ?i < unat (colorCount (settingOf s))" "unat (colorCount (settingOf s)) \<le> 10"
    by (simp_all add: wellFormed_def COLOR_COUNT_def)
  then have lt: "?i < 10" by (simp add: word_less_nat_alt)
  then have ne: "(10 :: uint8_t) \<noteq> ?i" by auto
  have a: "activeColor (settingOf s') = 9"
    unfolding s' using deleteRequest_found(4) [OF assms(3,4), of bytesOf commitOk] assms(2) lt ne
    by (simp add: COLOR_COUNT_def)
  have n: "colorCount (settingOf s') = colorCount (settingOf s) - 1"
    unfolding s' by (rule deleteRequest_found(3) [OF assms(3,4)])
  from i have "colorCount (settingOf s) \<noteq> 0" by auto
  then have "unat (colorCount (settingOf s) - 1) = unat (colorCount (settingOf s)) - 1"
    by (rule unat_minus_one)
  with i n have "unat (colorCount (settingOf s')) \<le> 9" by simp
  with a n show ?thesis by (auto simp: COLOR_COUNT_def)
qed

theorem deleteRequest_scratch_active_witness:
  "wellFormed fullPalette \<and> activeColor (settingOf fullPalette) = of_nat COLOR_COUNT
   \<and> checkValidColor ''031020'' 10 \<noteq> 0
   \<and> findColor (parseHexColor ''031020'') 10 fullPalette = 2
   \<and> findColor (parseHexColor ''031020'') 10 fullPalette \<noteq> of_nat COLOR_COUNT
   \<and> deleteRequest exampleLayout True ''031020'' 10 fullPalette
        = (1, snd (deleteRequest exampleLayout True ''031020'' 10 fullPalette))
   \<and> activeColor (settingOf (snd (deleteRequest exampleLayout True ''031020'' 10 fullPalette))) = 9
   \<and> colorCount (settingOf (snd (deleteRequest exampleLayout True ''031020'' 10 fullPalette))) = 9"
proof -
  have h1: "wellFormed fullPalette" by code_simp
  have h2: "activeColor (settingOf fullPalette) = of_nat COLOR_COUNT" by code_simp
  have h3: "checkValidColor ''031020'' 10 \<noteq> 0" by code_simp
  have f: "findColor (parseHexColor ''031020'') 10 fullPalette = 2" by code_simp
  have h4: "findColor (parseHexColor ''031020'') 10 fullPalette \<noteq> of_nat COLOR_COUNT"
    unfolding f by code_simp
  note h5 = deleteRequest_result [OF h3 h4, of exampleLayout]
  have n: "colorCount (settingOf fullPalette) = of_nat COLOR_COUNT" by code_simp
  from deleteRequest_scratch_active [OF h1 h2 h3 h4 h5] h1 h2 h3 f h4 h5 n
  show ?thesis by (elim conjE) simp
qed

section \<open>Starting an effect\<close>

lemma effects_length: "length effects = 12"
  by (simp add: effects_def)

lemma effects_frames: "e \<in> set effects \<Longrightarrow> 1 < sint (effectFrames e)"
  by (auto simp: effects_def EFFECT_FRAMES_PER_SECOND_def)

lemma checkValidEffect_found:
  assumes "name \<in> set (map effectName effects)"
  shows "unat (checkValidEffect name) < length effects
       \<and> effectName (effects ! unat (checkValidEffect name)) = name"
proof -
  let ?P = "\<lambda>i. effectName (effects ! i) = name"
  from assms obtain k where "k < length effects" "?P k"
    by (auto simp: in_set_conv_nth)
  then have "\<exists>x \<in> set [0 ..< length effects]. ?P x"
    by (intro bexI [of _ k]) simp_all
  then obtain i where f: "find ?P [0 ..< length effects] = Some i"
    by (cases "find ?P [0 ..< length effects]") (auto simp: find_None_iff)
  then have i: "i < length effects" "?P i"
    by (auto simp: find_Some_iff)
  then have "unat (of_nat i :: uint8_t) = i"
    by (simp add: unat_of_nat effects_length)
  with f i show ?thesis by (simp add: checkValidEffect_def)
qed

lemma checkValidEffect_none:
  assumes "name \<notin> set (map effectName effects)"
  shows "unat (checkValidEffect name) = length effects"
proof -
  have "find (\<lambda>i. effectName (effects ! i) = name) [0 ..< length effects] = None"
    using assms by (auto simp: find_None_iff)
  then show ?thesis
    by (simp add: checkValidEffect_def effects_length)
qed

text \<open>
  Claim C7. \<^verbatim>\<open>effectRequest\<close> with the name of one of the effects returns 1, sets the
  state to effect and the active effect to the index of the effect with that name,
  and raises the change flag; at that flag the main loop, in its case for the effect
  state, sets the frame counter \<^verbatim>\<open>actualFrame\<close> to 0 before it draws: in the pass that
  follows the request the frame drawn (when one is due) is frame 0, and the counter
  is 1 after it and 0 when none was due. With any other name \<^verbatim>\<open>effectRequest\<close>
  returns 0 and changes nothing.
\<close>

theorem effectRequest_sets_effect:
  assumes "(r, s') = effectRequest name s"
  shows "(name \<in> set (map effectName effects) \<longrightarrow>
            r = 1 \<and> programState (settingOf s') = NEOPIXEL_EFFECT
          \<and> unat (activeEffect (settingOf s')) < length effects
          \<and> effectName (effects ! unat (activeEffect (settingOf s'))) = name
          \<and> changeNeopixel s' = 1
          \<and> actualFrame (effectEntry s') = 0
          \<and> shown (loopNeopixels millis0 millis1 s')
               = (if 33 \<le> millis0
                  then [EffectFrame (effectFunction (effects ! unat (activeEffect (settingOf s')))) 0]
                  else []) @ SetBrightness EFFECT_BRIGHTNESS # shown s
          \<and> actualFrame (loopNeopixels millis0 millis1 s') = (if 33 \<le> millis0 then 1 else 0))
       \<and> (name \<notin> set (map effectName effects) \<longrightarrow> r = 0 \<and> s' = s)"
proof (cases "name \<in> set (map effectName effects)")
  case True
  let ?i = "checkValidEffect name"
  from checkValidEffect_found [OF True]
  have i: "unat ?i < length effects" "effectName (effects ! unat ?i) = name" by simp_all
  from assms i(1) have r: "r = 1"
    and s': "s' = setActiveEffect ?i ((setState NEOPIXEL_EFFECT s)\<lparr>changeNeopixel := 1\<rparr>)"
    by (simp_all add: effectRequest_def Let_def)
  from i(1) have "effects ! unat ?i \<in> set effects" by simp
  then have fr: "1 < sint (effectFrames (effects ! unat ?i))" by (rule effects_frames)
  have st: "programState (settingOf s') = NEOPIXEL_EFFECT" "activeEffect (settingOf s') = ?i"
    "changeNeopixel s' = 1" "shown s' = shown s"
    by (simp_all add: s' assign)
  have entry: "actualFrame (effectEntry s') = 0" "lastNeopixelRefresh (effectEntry s') = 0"
    "shown (effectEntry s') = SetBrightness EFFECT_BRIGHTNESS # shown s"
    "settingOf (effectEntry s') = settingOf s'"
    by (simp_all add: effectEntry_def st)
  have "shown (loopNeopixels millis0 millis1 s')
          = (if 33 \<le> millis0 then [EffectFrame (effectFunction (effects ! unat ?i)) 0] else [])
            @ SetBrightness EFFECT_BRIGHTNESS # shown s"
    and "actualFrame (loopNeopixels millis0 millis1 s') = (if 33 \<le> millis0 then 1 else 0)"
    using fr by (simp_all add: loopNeopixels_def effectFrame_def Let_def st entry)
  with r st i entry True show ?thesis by simp
next
  case False
  from checkValidEffect_none [OF False] assms have "r = 0 \<and> s' = s"
    by (simp add: effectRequest_def Let_def)
  with False show ?thesis by simp
qed

theorem effectRequest_sets_effect_witness:
  "(1, setActiveEffect 7 ((setState NEOPIXEL_EFFECT (twoColorsAt 0))\<lparr>changeNeopixel := 1\<rparr>))
      = effectRequest ''cylon'' (twoColorsAt 0)
   \<and> ''cylon'' \<in> set (map effectName effects)
   \<and> effectName (effects ! 7) = ''cylon''
   \<and> actualFrame (effectEntry (snd (effectRequest ''cylon'' (twoColorsAt 0)))) = 0
   \<and> shown (loopNeopixels 1000 1001 (snd (effectRequest ''cylon'' (twoColorsAt 0))))
        = [EffectFrame cylon 0, SetBrightness 96]
   \<and> actualFrame (loopNeopixels 1000 1001 (snd (effectRequest ''cylon'' (twoColorsAt 0)))) = 1
   \<and> (0, twoColorsAt 0) = effectRequest ''cylo'' (twoColorsAt 0)
   \<and> ''cylo'' \<notin> set (map effectName effects)"
proof -
  have a: "(1, setActiveEffect 7 ((setState NEOPIXEL_EFFECT (twoColorsAt 0))\<lparr>changeNeopixel := 1\<rparr>))
      = effectRequest ''cylon'' (twoColorsAt 0)" by code_simp
  have b: "(0, twoColorsAt 0) = effectRequest ''cylo'' (twoColorsAt 0)" by code_simp
  have c: "''cylon'' \<in> set (map effectName effects)" "''cylo'' \<notin> set (map effectName effects)"
    by (simp_all add: effects_def)
  have d: "effectName (effects ! 7) = ''cylon''" "effectFunction (effects ! 7) = cylon"
    by (simp_all add: effects_def)
  have e: "(33 :: uint32_t) \<le> 1000" by simp
  have f: "shown (twoColorsAt 0) = []" by code_simp
  from effectRequest_sets_effect [OF a, of 1000 1001] effectRequest_sets_effect [OF b, of 0 0]
    a [symmetric] b [symmetric] c d e f
  show ?thesis by (simp add: assign EFFECT_BRIGHTNESS_def)
qed

section \<open>Upper and lower case\<close>

lemma of_char_tolower:
  "(of_char (tolower c) :: nat) =
     (if 65 \<le> (of_char c :: nat) \<and> (of_char c :: nat) \<le> 90 then of_char c + 32 else of_char c)"
  by (simp add: tolower_def Let_def)

lemma of_char_toupper:
  "(of_char (toupper c) :: nat) =
     (if 97 \<le> (of_char c :: nat) \<and> (of_char c :: nat) \<le> 122 then of_char c - 32 else of_char c)"
  by (auto simp: toupper_def Let_def)

lemma tolower_toupper: "tolower (toupper c) = tolower c"
proof -
  have "(of_char (tolower (toupper c)) :: nat) = of_char (tolower c)"
    by (auto simp: of_char_tolower of_char_toupper)
  then show ?thesis by (simp only: of_char_eq_iff)
qed

lemma tolower_tolower: "tolower (tolower c) = tolower c"
proof -
  have "(of_char (tolower (tolower c)) :: nat) = of_char (tolower c)"
    by (auto simp: of_char_tolower)
  then show ?thesis by (simp only: of_char_eq_iff)
qed

lemma isxdigit_tolower: "isxdigit (tolower c) = isxdigit c"
  by (auto simp: isxdigit_def Let_def of_char_tolower)

lemma hexDigit_tolower: "isxdigit c \<Longrightarrow> hexDigit (tolower c) = hexDigit c"
  by (auto simp: isxdigit_def hexDigit_def Let_def of_char_tolower)

lemma takeWhile_tolower:
  "takeWhile isxdigit (map tolower str) = map tolower (takeWhile isxdigit str)"
  by (induction str) (simp_all add: isxdigit_tolower)

lemma foldl_hexDigit_tolower:
  "list_all isxdigit str \<Longrightarrow>
   foldl (\<lambda>acc c. acc * 16 + hexDigit c) acc (map tolower str)
     = foldl (\<lambda>acc c. acc * 16 + hexDigit c) acc str"
  by (induction str arbitrary: acc) (simp_all add: hexDigit_tolower)

lemma sscanf_x_tolower: "sscanf_x (map tolower str) = sscanf_x str"
proof -
  have "list_all isxdigit (takeWhile isxdigit str)"
    by (simp add: list_all_iff) (meson set_takeWhileD)
  then show ?thesis
    by (simp add: sscanf_x_def takeWhile_tolower foldl_hexDigit_tolower)
qed

lemma parseHexColor_tolower: "parseHexColor (map tolower str) = parseHexColor str"
  by (simp add: parseHexColor_def sscanf_x_tolower)

lemma list_all_isxdigit_tolower: "list_all isxdigit (map tolower str) = list_all isxdigit str"
  by (induction str) (simp_all add: isxdigit_tolower)

lemma checkValidColor_tolower: "checkValidColor (map tolower str) b = checkValidColor str b"
  by (simp add: checkValidColor_def parseHexColor_tolower take_map list_all_isxdigit_tolower)

lemma sameSpelling_parse:
  assumes "sameSpelling a b"
  shows "parseHexColor a = parseHexColor b" and "checkValidColor a br = checkValidColor b br"
proof -
  from assms have e: "map tolower a = map tolower b" by (simp add: sameSpelling_def)
  show "parseHexColor a = parseHexColor b"
    using parseHexColor_tolower [of a] parseHexColor_tolower [of b] e by simp
  show "checkValidColor a br = checkValidColor b br"
    using checkValidColor_tolower [of a br] checkValidColor_tolower [of b br] e by simp
qed

lemma isxdigit_chars: "isxdigit c \<longleftrightarrow> c \<in> set ''0123456789abcdefABCDEF''"
proof
  assume "c \<in> set ''0123456789abcdefABCDEF''"
  then show "isxdigit c" by (auto simp: isxdigit_def)
next
  assume x: "isxdigit c"
  define n where "n = (of_char c :: nat)"
  from x have r: "(48 \<le> n \<and> n \<le> 57) \<or> (65 \<le> n \<and> n \<le> 70) \<or> (97 \<le> n \<and> n \<le> 102)"
    by (simp add: isxdigit_def Let_def n_def)
  have "n = (of_char CHR ''0'' :: nat) \<or> n = (of_char CHR ''1'' :: nat)
        \<or> n = (of_char CHR ''2'' :: nat)
        \<or> n = (of_char CHR ''3'' :: nat)
        \<or> n = (of_char CHR ''4'' :: nat)
        \<or> n = (of_char CHR ''5'' :: nat)
        \<or> n = (of_char CHR ''6'' :: nat)
        \<or> n = (of_char CHR ''7'' :: nat)
        \<or> n = (of_char CHR ''8'' :: nat)
        \<or> n = (of_char CHR ''9'' :: nat)
        \<or> n = (of_char CHR ''A'' :: nat)
        \<or> n = (of_char CHR ''B'' :: nat)
        \<or> n = (of_char CHR ''C'' :: nat)
        \<or> n = (of_char CHR ''D'' :: nat)
        \<or> n = (of_char CHR ''E'' :: nat)
        \<or> n = (of_char CHR ''F'' :: nat)
        \<or> n = (of_char CHR ''a'' :: nat)
        \<or> n = (of_char CHR ''b'' :: nat)
        \<or> n = (of_char CHR ''c'' :: nat)
        \<or> n = (of_char CHR ''d'' :: nat)
        \<or> n = (of_char CHR ''e'' :: nat)
        \<or> n = (of_char CHR ''f'' :: nat)"
    using r by simp arith
  then have "c = CHR ''0'' \<or> c = CHR ''1'' \<or> c = CHR ''2''
        \<or> c = CHR ''3'' \<or> c = CHR ''4'' \<or> c = CHR ''5''
        \<or> c = CHR ''6'' \<or> c = CHR ''7'' \<or> c = CHR ''8''
        \<or> c = CHR ''9'' \<or> c = CHR ''A'' \<or> c = CHR ''B''
        \<or> c = CHR ''C'' \<or> c = CHR ''D'' \<or> c = CHR ''E''
        \<or> c = CHR ''F'' \<or> c = CHR ''a'' \<or> c = CHR ''b''
        \<or> c = CHR ''c'' \<or> c = CHR ''d'' \<or> c = CHR ''e''
        \<or> c = CHR ''f''"
    unfolding n_def by (simp only: of_char_eq_iff)
  then show "c \<in> set ''0123456789abcdefABCDEF''"
    by auto
qed

lemma isxdigit_toupper: "isxdigit (toupper c) = isxdigit c"
  by (auto simp: isxdigit_def Let_def of_char_toupper)

lemma list_all_isxdigit_toupper: "list_all isxdigit (map toupper str) = list_all isxdigit str"
  by (induction str) (simp_all add: isxdigit_toupper)

lemma checkValidColor_accepts:
  "checkValidColor a brightness = 1 \<longleftrightarrow>
     length a = 6 \<and> list_all isxdigit a \<and> parseHexColor a \<noteq> (0, 0, 0) \<and> brightness \<le> 100"
  by (auto simp: checkValidColor_def not_less)

text \<open>
  Claim C10. \<^verbatim>\<open>isxdigit\<close> holds of exactly the characters \<open>0\<close> to \<open>9\<close>, \<open>a\<close> to \<open>f\<close> and
  \<open>A\<close> to \<open>F\<close>, and \<^verbatim>\<open>checkValidColor\<close> returns 1 for exactly the strings of six such
  characters that are not parsed to three zero bytes, with a brightness of at most
  100: digits of either case are accepted, and so are the upper-case and the
  lower-case form of a string of hexadecimal digits. Two color strings that differ
  only in the case of their letters are valid or invalid together and are parsed to
  the same three bytes; in particular the upper-case and the lower-case form of a
  string are. So \<^verbatim>\<open>colorRequest\<close>, \<^verbatim>\<open>saveRequest\<close> and \<^verbatim>\<open>deleteRequest\<close> return the same
  result and the same state for both spellings, the search for an already saved
  color included.
\<close>

theorem requests_ignore_case:
  assumes "sameSpelling a b"
  shows "checkValidColor a brightness = checkValidColor b brightness
       \<and> parseHexColor a = parseHexColor b
       \<and> parseHexColor (map toupper a) = parseHexColor (map tolower a)
       \<and> checkValidColor (map toupper a) brightness = checkValidColor (map tolower a) brightness
       \<and> colorRequest a brightness s = colorRequest b brightness s
       \<and> saveRequest bytesOf commitOk a brightness s = saveRequest bytesOf commitOk b brightness s
       \<and> deleteRequest bytesOf commitOk a brightness s = deleteRequest bytesOf commitOk b brightness s
       \<and> (\<forall>c. isxdigit c \<longleftrightarrow> c \<in> set ''0123456789abcdefABCDEF'')
       \<and> (\<forall>str br. checkValidColor str br = 1 \<longleftrightarrow>
              length str = 6 \<and> list_all isxdigit str \<and> parseHexColor str \<noteq> (0, 0, 0)
              \<and> br \<le> 100)
       \<and> (\<forall>str. list_all isxdigit (map toupper str) = list_all isxdigit str
              \<and> list_all isxdigit (map tolower str) = list_all isxdigit str)"
proof -
  note p = sameSpelling_parse [OF assms]
  have "sameSpelling (map toupper a) (map tolower a)"
    by (simp add: sameSpelling_def tolower_toupper tolower_tolower comp_def)
  note q = sameSpelling_parse [OF this]
  have same: "checkValidColor a brightness = checkValidColor b brightness
       \<and> parseHexColor a = parseHexColor b
       \<and> parseHexColor (map toupper a) = parseHexColor (map tolower a)
       \<and> checkValidColor (map toupper a) brightness = checkValidColor (map tolower a) brightness
       \<and> colorRequest a brightness s = colorRequest b brightness s
       \<and> saveRequest bytesOf commitOk a brightness s = saveRequest bytesOf commitOk b brightness s
       \<and> deleteRequest bytesOf commitOk a brightness s = deleteRequest bytesOf commitOk b brightness s"
    by (simp add: p q colorRequest_def saveRequest_def deleteRequest_def)
  have digits: "\<forall>c. isxdigit c \<longleftrightarrow> c \<in> set ''0123456789abcdefABCDEF''"
    using isxdigit_chars by blast
  have accepts: "\<forall>str br. checkValidColor str br = 1 \<longleftrightarrow>
      length str = 6 \<and> list_all isxdigit str \<and> parseHexColor str \<noteq> (0, 0, 0) \<and> br \<le> 100"
    using checkValidColor_accepts by blast
  have cases: "\<forall>str. list_all isxdigit (map toupper str) = list_all isxdigit str
      \<and> list_all isxdigit (map tolower str) = list_all isxdigit str"
    by (simp add: list_all_isxdigit_toupper list_all_isxdigit_tolower)
  from same digits accepts cases show ?thesis by blast
qed

theorem requests_ignore_case_witness:
  "sameSpelling ''ff00aa'' ''FF00AA''
   \<and> checkValidColor ''ff00aa'' 50 = 1 \<and> checkValidColor ''FF00AA'' 50 = 1
   \<and> parseHexColor ''ff00aa'' = (0xff, 0, 0xaa) \<and> parseHexColor ''FF00AA'' = (0xff, 0, 0xaa)
   \<and> map toupper ''fF00aa'' = ''FF00AA'' \<and> map tolower ''fF00aa'' = ''ff00aa''
   \<and> fst (saveRequest exampleLayout True ''FF0000'' 50 (twoColorsAt 0)) = 3
   \<and> saveRequest exampleLayout True ''ff0000'' 50 (twoColorsAt 0)
        = saveRequest exampleLayout True ''FF0000'' 50 (twoColorsAt 0)
   \<and> isxdigit CHR ''b'' \<and> isxdigit CHR ''E'' \<and> \<not> isxdigit CHR ''g''
   \<and> checkValidColor ''bCdE09'' 100 = 1 \<and> checkValidColor ''bCdE09'' 101 \<noteq> 1"
proof -
  have h: "sameSpelling ''ff00aa'' ''FF00AA''" "sameSpelling ''ff0000'' ''FF0000''"
    by code_simp+
  have g: "length ''bCdE09'' = 6" "parseHexColor ''bCdE09'' \<noteq> (0, 0, 0)"
    "(100 :: uint8_t) \<le> 100" "\<not> (101 :: uint8_t) \<le> 100"
    by code_simp+
  have v: "checkValidColor ''ff00aa'' 50 = 1" "parseHexColor ''ff00aa'' = (0xff, 0, 0xaa)"
    by code_simp+
  have m: "map toupper ''fF00aa'' = ''FF00AA''" "map tolower ''fF00aa'' = ''ff00aa''"
    by code_simp+
  have d: "fst (saveRequest exampleLayout True ''FF0000'' 50 (twoColorsAt 0)) = 3"
    by code_simp
  note t = requests_ignore_case [OF h(1), of 50 "twoColorsAt 0" exampleLayout True]
  from t have digits: "\<And>c. isxdigit c \<longleftrightarrow> c \<in> set ''0123456789abcdefABCDEF''"
    and accepts: "\<And>str br. checkValidColor str br = 1 \<longleftrightarrow>
      length str = 6 \<and> list_all isxdigit str \<and> parseHexColor str \<noteq> (0, 0, 0) \<and> br \<le> 100"
    by blast+
  have x: "isxdigit CHR ''b''" "isxdigit CHR ''E''" "\<not> isxdigit CHR ''g''"
    by (simp_all add: digits)
  have y: "checkValidColor ''bCdE09'' 100 = 1" "checkValidColor ''bCdE09'' 101 \<noteq> 1"
    using g by (simp_all add: accepts digits)
  from t requests_ignore_case [OF h(2), of 50 "twoColorsAt 0" exampleLayout True] h v m d x y
  show ?thesis by (elim conjE) simp
qed

section \<open>The shape is kept\<close>

text \<open>
  Every operation keeps the shape \<open>wellFormed\<close> that the theorems above assume, and
  the reset at boot establishes it.
\<close>

lemma wellFormed_colorRequest:
  assumes "wellFormed s"
  shows "wellFormed (snd (colorRequest h b s))"
proof (cases "checkValidColor h b = 0")
  case True
  with assms show ?thesis by (simp add: colorRequest_def)
next
  case False
  with assms show ?thesis
    by (simp add: colorRequest_colors wellFormed_def)
qed

lemma wellFormed_saveEEPROM: "wellFormed (snd (saveEEPROM L ok s)) = wellFormed s"
  by (simp add: saveEEPROM_snd wellFormed_def)

lemma wellFormed_saveRequest:
  assumes "wellFormed s"
  shows "wellFormed (snd (saveRequest L ok h b s))"
proof -
  let ?n = "colorCount (settingOf s)"
  have "unat (?n + 1) \<le> 10" if "?n \<noteq> 10"
  proof -
    from assms that have "unat ?n < 10"
      by (auto simp: wellFormed_def COLOR_COUNT_def word_unat_eq_iff)
    then show ?thesis by (simp add: unat_word_ariths)
  qed
  with assms show ?thesis
    by (auto simp: saveRequest_def Let_def saveEEPROM_snd wellFormed_def assign COLOR_COUNT_def)
qed

lemma wellFormed_deleteRequest:
  assumes "wellFormed s"
  shows "wellFormed (snd (deleteRequest L ok h b s))"
proof (cases "checkValidColor h b \<noteq> 0 \<and> findColor (parseHexColor h) b s \<noteq> of_nat COLOR_COUNT")
  case False
  with assms show ?thesis by (auto simp: deleteRequest_def Let_def)
next
  case True
  then have v: "checkValidColor h b \<noteq> 0" and f: "findColor (parseHexColor h) b s \<noteq> of_nat COLOR_COUNT"
    by simp_all
  from findColor_found [OF assms f] have "colorCount (settingOf s) \<noteq> 0" by auto
  then have "unat (colorCount (settingOf s) - 1) = unat (colorCount (settingOf s)) - 1"
    by (rule unat_minus_one)
  with assms show ?thesis
    by (auto simp: wellFormed_def deleteRequest_found(2,3) [OF v f] shiftDown_length)
qed

lemma wellFormed_processClick: "wellFormed (processClick c s) = wellFormed s"
  by (simp add: processClick_def Let_def wellFormed_def assign)

lemma wellFormed_effectRequest: "wellFormed (snd (effectRequest name s)) = wellFormed s"
  by (simp add: effectRequest_def Let_def wellFormed_def assign)

lemma wellFormed_resetEEPROM:
  "length (colorsOf s) = COLOR_COUNT + 1 \<Longrightarrow> wellFormed (resetEEPROM L ok s)"
  by (simp add: wellFormed_def resetEEPROM_fields(1,2) resetLoop_length)

end
